theory Spec2Isabelle
  imports Complex_Main "HOL-Library.AList"
begin

section \<open>The two source files\<close>

text \<open>
  The repository holds two versions of the server: \<^verbatim>\<open>src/server.js\<close> and
  \<^verbatim>\<open>src/unnamed/part_000\<close>. They agree except in the \<^verbatim>\<open>hello\<close> handler, in the
  registry update of \<^verbatim>\<open>join_queue\<close> and in three expressions of \<^verbatim>\<open>resolveShot\<close>.
  Every function that differs takes the file as its first argument.
\<close>

datatype impl = ServerJs | Part000

section \<open>JavaScript values\<close>

text \<open>
  A JavaScript number is \<open>NaN\<close>, an infinity or a finite value. Finite doubles are
  modelled by reals: \<open>Math.max\<close>, \<open>Math.min\<close>, \<open><\<close> and the truthiness test are exact on
  doubles, the rounding of \<open>+\<close> and \<open>*\<close> is not modelled, and \<open>-0\<close> is identified with \<open>0\<close>.
\<close>

datatype jsnum = NaN | NInf | Fin real | PInf

fun js_lt :: "jsnum \<Rightarrow> jsnum \<Rightarrow> bool" where
  "js_lt NaN _ = False"
| "js_lt _ NaN = False"
| "js_lt (Fin x) (Fin y) = (x < y)"
| "js_lt NInf NInf = False"
| "js_lt NInf _ = True"
| "js_lt _ NInf = False"
| "js_lt PInf _ = False"
| "js_lt _ PInf = True"

definition Math_max :: "jsnum \<Rightarrow> jsnum \<Rightarrow> jsnum" where
  "Math_max a b = (if a = NaN \<or> b = NaN then NaN else if js_lt a b then b else a)"

definition Math_min :: "jsnum \<Rightarrow> jsnum \<Rightarrow> jsnum" where
  "Math_min a b = (if a = NaN \<or> b = NaN then NaN else if js_lt b a then b else a)"

fun js_neg :: "jsnum \<Rightarrow> jsnum" where
  "js_neg NaN = NaN"
| "js_neg NInf = PInf"
| "js_neg (Fin x) = Fin (- x)"
| "js_neg PInf = NInf"

fun js_add :: "jsnum \<Rightarrow> jsnum \<Rightarrow> jsnum" where
  "js_add NaN _ = NaN"
| "js_add _ NaN = NaN"
| "js_add (Fin x) (Fin y) = Fin (x + y)"
| "js_add PInf NInf = NaN"
| "js_add NInf PInf = NaN"
| "js_add PInf _ = PInf"
| "js_add _ PInf = PInf"
| "js_add NInf _ = NInf"
| "js_add _ NInf = NInf"

definition js_sub :: "jsnum \<Rightarrow> jsnum \<Rightarrow> jsnum" where
  "js_sub a b = js_add a (js_neg b)"

fun js_mul :: "jsnum \<Rightarrow> jsnum \<Rightarrow> jsnum" where
  "js_mul NaN _ = NaN"
| "js_mul _ NaN = NaN"
| "js_mul (Fin x) (Fin y) = Fin (x * y)"
| "js_mul (Fin x) PInf = (if x = 0 then NaN else if 0 < x then PInf else NInf)"
| "js_mul (Fin x) NInf = (if x = 0 then NaN else if 0 < x then NInf else PInf)"
| "js_mul PInf (Fin y) = (if y = 0 then NaN else if 0 < y then PInf else NInf)"
| "js_mul NInf (Fin y) = (if y = 0 then NaN else if 0 < y then NInf else PInf)"
| "js_mul PInf PInf = PInf"
| "js_mul NInf NInf = PInf"
| "js_mul PInf NInf = NInf"
| "js_mul NInf PInf = NInf"

text \<open>
  The values a JSON payload field can hold. Strings are lists of code units below 256.
\<close>

datatype jsval = JUndefined | JNull | JBool bool | JNum jsnum | JStr string

fun truthy :: "jsval \<Rightarrow> bool" where
  "truthy JUndefined = False"
| "truthy JNull = False"
| "truthy (JBool b) = b"
| "truthy (JNum n) = (n \<noteq> NaN \<and> n \<noteq> Fin 0)"
| "truthy (JStr s) = (s \<noteq> [])"

text \<open>
  An event payload. \<open>NoObject\<close> is \<^verbatim>\<open>undefined\<close> or \<^verbatim>\<open>null\<close>, which a destructuring
  parameter such as \<^verbatim>\<open>({ angleDeg, power01 })\<close> rejects with a TypeError. \<open>Obj\<close> is an
  object with the listed properties; a property that is not listed reads as
  \<^verbatim>\<open>undefined\<close>, and the first entry for a name is its value.
\<close>

datatype payload = NoObject | Obj "(string \<times> jsval) list"

definition field :: "(string \<times> jsval) list \<Rightarrow> string \<Rightarrow> jsval" where
  "field fs k = (case map_of fs k of None \<Rightarrow> JUndefined | Some v \<Rightarrow> v)"

text \<open>
  What the runtime hands to one run of a handler: the results of the successive calls of
  the id generator (\<^verbatim>\<open>uid()\<close> in server.js, \<^verbatim>\<open>genId()\<close> in part_000), of \<^verbatim>\<open>Math.random()\<close>
  and of \<^verbatim>\<open>Date.now()\<close>, and the language's conversions between strings and numbers.
  In server.js \<^verbatim>\<open>uid()\<close> is itself computed from two calls of \<^verbatim>\<open>Math.random()\<close>; the
  model keeps its results apart from the draws of \<open>rnd\<close>.
\<close>

record env =
  gen :: "nat \<Rightarrow> string"
  rnd :: "nat \<Rightarrow> real"
  now :: int
  StringToNumber :: "string \<Rightarrow> jsnum"
  NumberToString :: "jsnum \<Rightarrow> string"

fun Number_js :: "env \<Rightarrow> jsval \<Rightarrow> jsnum" where
  "Number_js e JUndefined = NaN"
| "Number_js e JNull = Fin 0"
| "Number_js e (JBool b) = Fin (if b then 1 else 0)"
| "Number_js e (JNum n) = n"
| "Number_js e (JStr s) = StringToNumber e s"

text \<open>\<^verbatim>\<open>x || 0\<close> on a number: \<open>NaN\<close> and \<open>0\<close> are falsy.\<close>

definition or_zero :: "jsnum \<Rightarrow> jsnum" where
  "or_zero n = (if truthy (JNum n) then n else Fin 0)"

text \<open>The property key that \<^verbatim>\<open>matches[v]\<close> reads.\<close>

fun ToPropertyKey :: "env \<Rightarrow> jsval \<Rightarrow> string" where
  "ToPropertyKey e JUndefined = ''undefined''"
| "ToPropertyKey e JNull = ''null''"
| "ToPropertyKey e (JBool b) = (if b then ''true'' else ''false'')"
| "ToPropertyKey e (JNum n) = NumberToString e n"
| "ToPropertyKey e (JStr s) = s"

section \<open>The in-memory model\<close>

type_synonym sid = string

datatype status = waiting | playing | finished
datatype mtype = public_t | private_t
datatype slot = A | B
datatype role = role_A | role_B | spec
datatype shot = goal | miss | save
datatype winner = win_A | win_B | draw
datatype turn_role = kicker | keeper

record kick_t =
  angleDeg :: jsnum
  power01 :: jsnum

text \<open>
  A match. The nested objects \<^verbatim>\<open>players\<close>, \<^verbatim>\<open>uids\<close>, \<^verbatim>\<open>score\<close> and \<^verbatim>\<open>pending\<close> are
  flattened. A player slot holds \<^verbatim>\<open>null\<close> (\<open>None\<close>) or a socket id; socket ids are
  non-empty strings, so a slot is truthy exactly when it is not \<open>None\<close>. The spectator
  \<^verbatim>\<open>Set\<close> is the list of its members in insertion order.
\<close>

record match =
  id_m :: string
  status :: status
  type_m :: mtype
  code :: "string option"
  players_A :: "sid option"
  players_B :: "sid option"
  uids_A :: "string option"
  uids_B :: "string option"
  spectators :: "sid list"
  round_m :: int
  maxRounds :: int
  score_A :: int
  score_B :: int
  turn :: slot
  pending_kick :: "kick_t option"
  pending_dive :: "string option"

text \<open>The payloads sent to clients; \<open>score\<close> is the pair \<open>(A, B)\<close>.\<close>

datatype message = invalid_code | room_full | match_unavailable

datatype msg =
    hello_ok "(string \<times> jsval) list"
  | private_created string "string option"
  | match_start string slot int
  | your_turn turn_role int slot "int \<times> int"
  | score_update "int \<times> int" int slot
  | shot_result shot string "int \<times> int" int slot
  | match_over winner "int \<times> int" "string option"
  | error_msg message

text \<open>One call of \<^verbatim>\<open>io.to(target).emit(...)\<close> or \<^verbatim>\<open>socket.emit(...)\<close>.\<close>

type_synonym emit = "sid option \<times> msg"

datatype error = TypeError

definition other :: "slot \<Rightarrow> slot" where
  "other r = (if r = A then B else A)"

definition players :: "match \<Rightarrow> slot \<Rightarrow> sid option" where
  "players m s = (case s of A \<Rightarrow> players_A m | B \<Rightarrow> players_B m)"

definition score :: "match \<Rightarrow> int \<times> int" where
  "score m = (score_A m, score_B m)"

definition set_add :: "sid list \<Rightarrow> sid \<Rightarrow> sid list" where
  "set_add xs s = (if s \<in> set xs then xs else xs @ [s])"

subsection \<open>inviteCode and createMatch\<close>

definition chars :: string where
  "chars = ''ABCDEFGHJKLMNPQRSTUVWXYZ23456789''"

text \<open>\<^verbatim>\<open>out += chars[i]\<close>: an index outside the string appends \<^verbatim>\<open>undefined\<close>.\<close>

definition char_at :: "string \<Rightarrow> int \<Rightarrow> string" where
  "char_at s i = (if 0 \<le> i \<and> i < int (length s) then [s ! nat i] else ''undefined'')"

definition inviteCode :: "(nat \<Rightarrow> real) \<Rightarrow> string" where
  "inviteCode r =
     foldl (\<lambda>out i. out @ char_at chars \<lfloor>r i * real (length chars)\<rfloor>) [] [0..<6]"

definition createMatch :: "string \<Rightarrow> (nat \<Rightarrow> real) \<Rightarrow> mtype \<Rightarrow> match" where
  "createMatch i r t =
     \<lparr> id_m = i, status = waiting, type_m = t,
       code = (if t = private_t then Some (inviteCode r) else None),
       players_A = None, players_B = None, uids_A = None, uids_B = None,
       spectators = [], round_m = 1, maxRounds = 5, score_A = 0, score_B = 0,
       turn = A, pending_kick = None, pending_dive = None \<rparr>"

subsection \<open>pushTurn, startIfReady, finishMatch\<close>

definition to_all :: "sid list \<Rightarrow> msg \<Rightarrow> emit list" where
  "to_all ss x = map (\<lambda>s. (Some s, x)) ss"

definition pushTurn :: "match \<Rightarrow> emit list" where
  "pushTurn m =
     [(players m (turn m), your_turn kicker (round_m m) (turn m) (score m)),
      (players m (other (turn m)), your_turn keeper (round_m m) (other (turn m)) (score m))]
     @ to_all (spectators m) (score_update (score m) (round_m m) (turn m))"

definition startIfReady :: "match \<Rightarrow> match \<times> emit list" where
  "startIfReady m =
     (if players_A m \<noteq> None \<and> players_B m \<noteq> None \<and> status m = waiting then
        (let m1 = m\<lparr>status := playing\<rparr> in
         (m1, [(players_A m1, match_start (id_m m1) A (maxRounds m1)),
               (players_B m1, match_start (id_m m1) B (maxRounds m1))] @ pushTurn m1))
      else (m, []))"

definition finishMatch :: "match \<Rightarrow> match \<times> emit list" where
  "finishMatch m =
     (let m1 = m\<lparr>status := finished\<rparr>;
          w = (if score_A m1 > score_B m1 then win_A
               else if score_B m1 > score_A m1 then win_B else draw)
      in (m1, [(players_A m1, match_over w (score m1) None),
               (players_B m1, match_over w (score m1) None)]
              @ to_all (spectators m1) (match_over w (score m1) None)))"

subsection \<open>resolveShot\<close>

text \<open>
  The angle and the power that the arithmetic of \<^verbatim>\<open>resolveShot\<close> uses. server.js clamps
  the stored values; part_000 first applies \<^verbatim>\<open>Number(...) || 0\<close>, which is the identity
  on a number except that it turns \<open>NaN\<close> into \<open>0\<close>.
\<close>

definition shot_angle :: "impl \<Rightarrow> kick_t \<Rightarrow> jsnum" where
  "shot_angle v k =
     Math_max (Fin (- 60)) (Math_min (Fin 60)
       (case v of ServerJs \<Rightarrow> angleDeg k | Part000 \<Rightarrow> or_zero (angleDeg k)))"

definition shot_power :: "impl \<Rightarrow> kick_t \<Rightarrow> jsnum" where
  "shot_power v k =
     Math_max (Fin 0) (Math_min (Fin 1)
       (case v of ServerJs \<Rightarrow> power01 k | Part000 \<Rightarrow> or_zero (power01 k)))"

definition shot_zone :: "(nat \<Rightarrow> real) \<Rightarrow> jsnum \<Rightarrow> jsnum \<Rightarrow> string" where
  "shot_zone r ang pwr =
     (let spread = js_mul (Fin 6) (js_add (Fin 0.2) pwr);
          actualAngle =
            js_add ang (js_mul (js_sub (js_mul (Fin (r 0)) (Fin 2)) (Fin 1)) spread)
      in if js_lt actualAngle (Fin (- 15)) then ''left''
         else if js_lt (Fin 15) actualAngle then ''right'' else ''center'')"

text \<open>
  The outcome of a shot. \<open>dive\<close> is \<^verbatim>\<open>m.pending.dive\<close>, \<open>None\<close> for \<^verbatim>\<open>null\<close>: server.js
  reads \<^verbatim>\<open>dive.dir\<close> unguarded, part_000 tests \<^verbatim>\<open>dive && dive.dir === zone\<close>. The draws
  \<open>r 0\<close>, \<open>r 1\<close>, \<open>r 2\<close> are the calls of \<^verbatim>\<open>Math.random()\<close> in the order the code makes
  them.
\<close>

definition shot_outcome ::
  "impl \<Rightarrow> (nat \<Rightarrow> real) \<Rightarrow> kick_t \<Rightarrow> string option \<Rightarrow> error + (shot \<times> string)" where
  "shot_outcome v r k dive =
     (let ang = shot_angle v k;
          pwr = shot_power v k;
          zone = shot_zone r ang pwr;
          missProb = js_mul (Math_max (Fin 0) (js_sub pwr (Fin 0.9))) (Fin 2);
          isMiss = js_lt (Fin (r 1)) missProb
      in if isMiss then Inr (miss, zone)
         else (case dive of
                 None \<Rightarrow> (case v of ServerJs \<Rightarrow> Inl TypeError | Part000 \<Rightarrow> Inr (goal, zone))
               | Some dir \<Rightarrow>
                   if dir = zone then
                     (let saveProb = js_sub (Fin 0.6) (js_mul (Fin 0.25) pwr)
                      in if js_lt (Fin (r 2)) saveProb then Inr (save, zone)
                         else Inr (goal, zone))
                   else Inr (goal, zone)))"

text \<open>\<^verbatim>\<open>totalShots\<close> as the code computes it from \<^verbatim>\<open>round\<close> and \<^verbatim>\<open>turn\<close>.\<close>

definition totalShots :: "match \<Rightarrow> int" where
  "totalShots m = (round_m m - 1) * 2 + (if turn m = A then 0 else 1)"

text \<open>
  The part of \<^verbatim>\<open>resolveShot\<close> after the outcome is known: the score, the broadcast of
  \<^verbatim>\<open>shot_result\<close>, the advance of round and turn, and the end test.
\<close>

definition after_shot :: "shot \<Rightarrow> string \<Rightarrow> match \<Rightarrow> match \<times> emit list" where
  "after_shot result zone m0 =
     (let shooter = turn m0;
          keeper_slot = other (turn m0);
          m1 = (if result = goal then
                  (case shooter of A \<Rightarrow> m0\<lparr>score_A := score_A m0 + 1\<rparr>
                                 | B \<Rightarrow> m0\<lparr>score_B := score_B m0 + 1\<rparr>)
                else m0);
          sr = shot_result result zone (score m1) (round_m m1) keeper_slot;
          out1 = [(players_A m1, sr), (players_B m1, sr)] @ to_all (spectators m1) sr;
          m2 = (if shooter = B then m1\<lparr>round_m := round_m m1 + 1\<rparr> else m1);
          m3 = m2\<lparr>turn := other (turn m2)\<rparr>;
          maxShots = maxRounds m3 * 2
      in if totalShots m3 \<ge> maxShots then
           (if score_A m3 \<noteq> score_B m3 then
              (let (m4, out2) = finishMatch m3 in (m4, out1 @ out2))
            else if round_m m3 > maxRounds m3 then
              (if turn m3 = A then
                 (if score_A m3 \<noteq> score_B m3 then
                    (let (m4, out2) = finishMatch m3 in (m4, out1 @ out2))
                  else (m3, out1 @ pushTurn m3))
               else (m3, out1 @ pushTurn m3))
            else (m3, out1 @ pushTurn m3))
         else (m3, out1 @ pushTurn m3))"

definition resolveShot :: "impl \<Rightarrow> (nat \<Rightarrow> real) \<Rightarrow> match \<Rightarrow> error + (match \<times> emit list)" where
  "resolveShot v r m =
     (case pending_kick m of
        None \<Rightarrow> Inl TypeError
      | Some k \<Rightarrow>
          (case shot_outcome v r k (pending_dive m) of
             Inl e \<Rightarrow> Inl e
           | Inr (result, zone) \<Rightarrow>
               Inr (after_shot result zone (m\<lparr>pending_kick := None, pending_dive := None\<rparr>))))"

section \<open>The registries\<close>

text \<open>
  \<^verbatim>\<open>matches\<close> is a plain object used as a dictionary: an association list in insertion
  order, written with \<open>AList.update\<close> (an existing key keeps its place, a new key goes
  last). A key that is not an own property is still found when \<^verbatim>\<open>Object.prototype\<close>
  has a property of that name; the value found is then a function or the prototype
  object, never a match.
\<close>

type_synonym store = "(string \<times> match) list"

datatype lookup = Missing | Inherited | Own match

definition proto_names :: "string list" where
  "proto_names =
     [''constructor'', ''__proto__'', ''hasOwnProperty'', ''isPrototypeOf'',
      ''propertyIsEnumerable'', ''toLocaleString'', ''toString'', ''valueOf'',
      ''__defineGetter__'', ''__defineSetter__'', ''__lookupGetter__'',
      ''__lookupSetter__'']"

definition get_match :: "store \<Rightarrow> string \<Rightarrow> lookup" where
  "get_match st k =
     (case map_of st k of
        Some m \<Rightarrow> Own m
      | None \<Rightarrow> if k \<in> set proto_names then Inherited else Missing)"

text \<open>
  \<^verbatim>\<open>Object.values\<close> lists the keys that are array indices (canonical decimal numerals
  below \<open>2^32 - 1\<close>) first, in ascending numeric order, and the other keys after them in
  insertion order. \<open>Object_entries\<close> keeps the key beside each value.
\<close>

definition decimal :: "string \<Rightarrow> nat" where
  "decimal s = foldl (\<lambda>n c. 10 * n + (of_char c - 48)) 0 s"

definition array_index :: "string \<Rightarrow> nat option" where
  "array_index s =
     (if s \<noteq> [] \<and> list_all (\<lambda>c. c \<in> set ''0123456789'') s
         \<and> (s = ''0'' \<or> hd s \<noteq> CHR ''0'') \<and> decimal s < 2 ^ 32 - 1
      then Some (decimal s) else None)"

definition Object_entries :: "store \<Rightarrow> (string \<times> match) list" where
  "Object_entries st =
     sort_key (\<lambda>(k, m). the (array_index k)) (filter (\<lambda>(k, m). array_index k \<noteq> None) st)
     @ filter (\<lambda>(k, m). array_index k = None) st"

text \<open>
  Per-connection metadata. \<^verbatim>\<open>uid\<close>, \<^verbatim>\<open>nick\<close> and \<^verbatim>\<open>matchId\<close> hold whatever value
  the handlers store; \<^verbatim>\<open>role\<close> is written and never read, so \<^verbatim>\<open>null\<close> and
  \<^verbatim>\<open>undefined\<close> are both \<open>None\<close> there.
\<close>

record meta =
  uid :: jsval
  nick :: jsval
  matchId :: jsval
  role :: "role option"

record world =
  matches :: store
  queue :: "sid list"
  socketsMeta :: "sid \<rightharpoonup> meta"
  outbox :: "emit list"

definition init_world :: world where
  "init_world = \<lparr> matches = [], queue = [], socketsMeta = Map.empty, outbox = [] \<rparr>"

text \<open>The object \<^verbatim>\<open>{}\<close> of \<^verbatim>\<open>socketsMeta.get(id) || {}\<close>.\<close>

definition empty_meta :: meta where
  "empty_meta = \<lparr> uid = JUndefined, nick = JUndefined, matchId = JUndefined, role = None \<rparr>"

definition meta_or_empty :: "(sid \<rightharpoonup> meta) \<Rightarrow> sid \<Rightarrow> meta" where
  "meta_or_empty ms s = (case ms s of None \<Rightarrow> empty_meta | Some mt \<Rightarrow> mt)"

definition emit_to :: "sid \<Rightarrow> msg \<Rightarrow> world \<Rightarrow> world" where
  "emit_to s x w = w\<lparr>outbox := outbox w @ [(Some s, x)]\<rparr>"

section \<open>The event handlers\<close>

text \<open>
  A handler returns the world it leaves behind, or the exception it throws. Socket.IO
  runs a handler to completion and does not catch what it throws. \<^verbatim>\<open>socket.join\<close> is
  left out: the server never emits to a match room.
\<close>

definition on_connection :: "sid \<Rightarrow> world \<Rightarrow> error + world" where
  "on_connection s w =
     Inr (w\<lparr>socketsMeta := (socketsMeta w)
            (s \<mapsto> \<lparr> uid = JNull, nick = JNull, matchId = JNull, role = None \<rparr>)\<rparr>)"

subsection \<open>hello\<close>

definition whitespace :: "char \<Rightarrow> bool" where
  "whitespace c = (of_char c \<in> {9, 10, 11, 12, 13, 32, 160 :: nat})"

definition trim :: "string \<Rightarrow> string" where
  "trim s = rev (dropWhile whitespace (rev (dropWhile whitespace s)))"

text \<open>
  In server.js the parameter \<^verbatim>\<open>uid\<close> of the handler hides the function \<^verbatim>\<open>uid\<close>, so
  \<^verbatim>\<open>'guest_' + uid()\<close> calls the falsy payload value and throws.
\<close>

definition hello :: "impl \<Rightarrow> env \<Rightarrow> sid \<Rightarrow> payload \<Rightarrow> world \<Rightarrow> error + world" where
  "hello v e s p w =
     (case v of
        ServerJs \<Rightarrow>
          (case p of
             NoObject \<Rightarrow> Inl TypeError
           | Obj fs \<Rightarrow>
               (let u = field fs ''uid''; n = field fs ''nick'';
                    mt = meta_or_empty (socketsMeta w) s
                in if truthy u then
                     Inr (emit_to s (hello_ok [(''serverTime'', JNum (Fin (of_int (now e))))])
                       (w\<lparr>socketsMeta := (socketsMeta w)
                            (s \<mapsto> mt\<lparr>uid := u,
                                       nick := (if truthy n then n else JStr ''Invitado'')\<rparr>)\<rparr>))
                   else Inl TypeError))
      | Part000 \<Rightarrow>
          (let data = (case p of NoObject \<Rightarrow> [] | Obj fs \<Rightarrow> fs);
               rawUid = (case field data ''uid'' of JStr x \<Rightarrow> x | _ \<Rightarrow> []);
               n = (case field data ''nick'' of
                      JStr x \<Rightarrow> if trim x \<noteq> [] then trim x else ''Invitado''
                    | _ \<Rightarrow> ''Invitado'');
               finalUid = (if rawUid \<noteq> [] then rawUid else ''guest_'' @ gen e 0);
               mt = meta_or_empty (socketsMeta w) s
           in Inr (emit_to s
                 (hello_ok [(''serverTime'', JNum (Fin (of_int (now e)))),
                            (''uid'', JStr finalUid), (''nick'', JStr n)])
                 (w\<lparr>socketsMeta := (socketsMeta w)
                      (s \<mapsto> mt\<lparr>uid := JStr finalUid, nick := JStr n\<rparr>)\<rparr>))))"

subsection \<open>join_queue\<close>

text \<open>
  \<^verbatim>\<open>socketsMeta.get(sA).matchId = ...\<close> throws in server.js when the connection has
  no metadata; part_000 reads \<^verbatim>\<open>socketsMeta.get(sA) || {}\<close>.
\<close>

definition meta_for :: "impl \<Rightarrow> (sid \<rightharpoonup> meta) \<Rightarrow> sid \<Rightarrow> error + meta" where
  "meta_for v ms s =
     (case ms s of
        Some mt \<Rightarrow> Inr mt
      | None \<Rightarrow> (case v of ServerJs \<Rightarrow> Inl TypeError | Part000 \<Rightarrow> Inr empty_meta))"

text \<open>
  The \<^verbatim>\<open>while (queue.length >= 2)\<close> loop. The fourth argument is the queue, \<open>k\<close> counts
  the matches created so far in this run of the handler.
\<close>

fun pair_loop :: "impl \<Rightarrow> env \<Rightarrow> nat \<Rightarrow> sid list \<Rightarrow> world \<Rightarrow> error + world" where
  "pair_loop v e k (sA # sB # rest) w =
     (let i = gen e k;
          m = (createMatch i (rnd e) public_t)\<lparr>players_A := Some sA, players_B := Some sB\<rparr>
      in case meta_for v (socketsMeta w) sA of
           Inl err \<Rightarrow> Inl err
         | Inr ma \<Rightarrow>
             (let ms1 = (socketsMeta w)(sA \<mapsto> ma\<lparr>matchId := JStr i, role := Some role_A\<rparr>)
              in case meta_for v ms1 sB of
                   Inl err \<Rightarrow> Inl err
                 | Inr mb \<Rightarrow>
                     (let ms2 = ms1(sB \<mapsto> mb\<lparr>matchId := JStr i, role := Some role_B\<rparr>);
                          (m1, out) = startIfReady m
                      in pair_loop v e (Suc k) rest
                           (w\<lparr>matches := AList.update i m1 (matches w),
                              socketsMeta := ms2, outbox := outbox w @ out\<rparr>))))"
| "pair_loop v e k q w = Inr (w\<lparr>queue := q\<rparr>)"

definition join_queue :: "impl \<Rightarrow> env \<Rightarrow> sid \<Rightarrow> world \<Rightarrow> error + world" where
  "join_queue v e s w =
     (case socketsMeta w s of
        None \<Rightarrow> Inr w
      | Some mt \<Rightarrow> pair_loop v e 0 (queue w @ [s]) w)"

subsection \<open>create_private, join_by_code, spectate_join\<close>

definition create_private :: "env \<Rightarrow> sid \<Rightarrow> world \<Rightarrow> error + world" where
  "create_private e s w =
     (let i = gen e 0;
          m = (createMatch i (rnd e) private_t)\<lparr>players_A := Some s\<rparr>;
          mt = meta_or_empty (socketsMeta w) s
      in Inr (emit_to s (private_created i (code m))
           (w\<lparr>matches := AList.update i m (matches w),
              socketsMeta := (socketsMeta w)
                (s \<mapsto> mt\<lparr>matchId := JStr i, role := Some role_A\<rparr>)\<rparr>)))"

text \<open>\<^verbatim>\<open>x.code === code\<close>: the stored code is a string or \<^verbatim>\<open>null\<close>.\<close>

fun code_eq :: "string option \<Rightarrow> jsval \<Rightarrow> bool" where
  "code_eq None JNull = True"
| "code_eq (Some c) (JStr c') = (c = c')"
| "code_eq _ _ = False"

definition find_waiting :: "store \<Rightarrow> jsval \<Rightarrow> (string \<times> match) option" where
  "find_waiting st c =
     find (\<lambda>(k, x). code_eq (code x) c \<and> status x = waiting) (Object_entries st)"

definition join_by_code :: "sid \<Rightarrow> payload \<Rightarrow> world \<Rightarrow> error + world" where
  "join_by_code s p w =
     (case p of
        NoObject \<Rightarrow> Inl TypeError
      | Obj fs \<Rightarrow>
          (case find_waiting (matches w) (field fs ''code'') of
             None \<Rightarrow> Inr (emit_to s (error_msg invalid_code) w)
           | Some (k, m) \<Rightarrow>
               if players_B m \<noteq> None then Inr (emit_to s (error_msg room_full) w)
               else
                 (let mt = meta_or_empty (socketsMeta w) s;
                      (m1, out) = startIfReady (m\<lparr>players_B := Some s\<rparr>)
                  in Inr (w\<lparr>matches := AList.update k m1 (matches w),
                            socketsMeta := (socketsMeta w)
                              (s \<mapsto> mt\<lparr>matchId := JStr (id_m m), role := Some role_B\<rparr>),
                            outbox := outbox w @ out\<rparr>))))"

definition spectate_join :: "env \<Rightarrow> sid \<Rightarrow> payload \<Rightarrow> world \<Rightarrow> error + world" where
  "spectate_join e s p w =
     (case p of
        NoObject \<Rightarrow> Inl TypeError
      | Obj fs \<Rightarrow>
          (let mid = field fs ''matchId''; k = ToPropertyKey e mid
           in case get_match (matches w) k of
                Missing \<Rightarrow> Inr (emit_to s (error_msg match_unavailable) w)
              | Inherited \<Rightarrow> Inl TypeError
              | Own m \<Rightarrow>
                  if status m = finished then Inr (emit_to s (error_msg match_unavailable) w)
                  else
                    (let m1 = m\<lparr>spectators := set_add (spectators m) s\<rparr>;
                         mt = meta_or_empty (socketsMeta w) s
                     in Inr (emit_to s (score_update (score m1) (round_m m1) (turn m1))
                          (w\<lparr>matches := AList.update k m1 (matches w),
                             socketsMeta := (socketsMeta w)
                               (s \<mapsto> mt\<lparr>matchId := mid, role := Some spec\<rparr>)\<rparr>)))))"

subsection \<open>kick and dive\<close>

text \<open>
  Both handlers end with \<^verbatim>\<open>if (m.pending.kick && m.pending.dive) resolveShot(m)\<close>; the
  pending action just stored is an object, hence truthy.
\<close>

definition resolve_if_ready ::
  "impl \<Rightarrow> env \<Rightarrow> string \<Rightarrow> match \<Rightarrow> world \<Rightarrow> error + world" where
  "resolve_if_ready v e k m w =
     (if pending_kick m \<noteq> None \<and> pending_dive m \<noteq> None then
        (case resolveShot v (rnd e) m of
           Inl err \<Rightarrow> Inl err
         | Inr (m1, out) \<Rightarrow>
             Inr (w\<lparr>matches := AList.update k m1 (matches w), outbox := outbox w @ out\<rparr>))
      else Inr (w\<lparr>matches := AList.update k m (matches w)\<rparr>))"

definition kick :: "impl \<Rightarrow> env \<Rightarrow> sid \<Rightarrow> payload \<Rightarrow> world \<Rightarrow> error + world" where
  "kick v e s p w =
     (case p of
        NoObject \<Rightarrow> Inl TypeError
      | Obj fs \<Rightarrow>
          (case socketsMeta w s of
             None \<Rightarrow> Inr w
           | Some mt \<Rightarrow>
               (let k = ToPropertyKey e (matchId mt)
                in case get_match (matches w) k of
                     Own m \<Rightarrow>
                       if status m \<noteq> playing then Inr w
                       else if players m (turn m) \<noteq> Some s then Inr w
                       else resolve_if_ready v e k
                              (m\<lparr>pending_kick := Some
                                  \<lparr> angleDeg = or_zero (Number_js e (field fs ''angleDeg'')),
                                    power01 = Math_max (Fin 0) (Math_min (Fin 1)
                                                (Number_js e (field fs ''power01''))) \<rparr>\<rparr>) w
                   | _ \<Rightarrow> Inr w)))"

definition normalize_dir :: "jsval \<Rightarrow> string" where
  "normalize_dir d =
     (case d of
        JStr x \<Rightarrow> if x \<in> set [''left'', ''center'', ''right''] then x else ''center''
      | _ \<Rightarrow> ''center'')"

definition dive :: "impl \<Rightarrow> env \<Rightarrow> sid \<Rightarrow> payload \<Rightarrow> world \<Rightarrow> error + world" where
  "dive v e s p w =
     (case p of
        NoObject \<Rightarrow> Inl TypeError
      | Obj fs \<Rightarrow>
          (case socketsMeta w s of
             None \<Rightarrow> Inr w
           | Some mt \<Rightarrow>
               (let k = ToPropertyKey e (matchId mt)
                in case get_match (matches w) k of
                     Own m \<Rightarrow>
                       if status m \<noteq> playing then Inr w
                       else if players m (other (turn m)) \<noteq> Some s then Inr w
                       else resolve_if_ready v e k
                              (m\<lparr>pending_dive := Some (normalize_dir (field fs ''dir''))\<rparr>) w
                   | _ \<Rightarrow> Inr w)))"

subsection \<open>disconnect\<close>

text \<open>
  The handler looks at \<^verbatim>\<open>meta.matchId\<close> only, not at \<^verbatim>\<open>meta.role\<close>, and it does not
  touch \<^verbatim>\<open>m.spectators\<close>.
\<close>

definition disconnect :: "env \<Rightarrow> sid \<Rightarrow> world \<Rightarrow> error + world" where
  "disconnect e s w =
     (let w1 = w\<lparr>socketsMeta := (socketsMeta w)(s := None), queue := remove1 s (queue w)\<rparr>
      in case socketsMeta w s of
           None \<Rightarrow> Inr w1
         | Some mt \<Rightarrow>
             if truthy (matchId mt) then
               (let k = ToPropertyKey e (matchId mt)
                in case get_match (matches w1) k of
                     Missing \<Rightarrow> Inr w1
                   | Inherited \<Rightarrow> Inl TypeError
                   | Own m \<Rightarrow>
                       if status m \<noteq> finished then
                         (let m1 = m\<lparr>status := finished\<rparr>;
                              wn = (if players_A m1 = Some s then win_B else win_A);
                              x = match_over wn (score m1) (Some ''opponent_disconnected'')
                          in Inr (w1\<lparr>matches := AList.update k m1 (matches w1),
                                     outbox := outbox w1
                                       @ [(players_A m1, x), (players_B m1, x)]
                                       @ to_all (spectators m1) x\<rparr>))
                       else Inr w1)
             else Inr w1)"

subsection \<open>The server as a transition system\<close>

datatype event =
    Connection sid
  | Hello sid payload
  | JoinQueue sid
  | CreatePrivate sid
  | JoinByCode sid payload
  | SpectateJoin sid payload
  | Kick sid payload
  | Dive sid payload
  | Disconnect sid

fun step :: "impl \<Rightarrow> env \<Rightarrow> event \<Rightarrow> world \<Rightarrow> error + world" where
  "step v e (Connection s) w = on_connection s w"
| "step v e (Hello s p) w = hello v e s p w"
| "step v e (JoinQueue s) w = join_queue v e s w"
| "step v e (CreatePrivate s) w = create_private e s w"
| "step v e (JoinByCode s p) w = join_by_code s p w"
| "step v e (SpectateJoin s p) w = spectate_join e s p w"
| "step v e (Kick s p) w = kick v e s p w"
| "step v e (Dive s p) w = dive v e s p w"
| "step v e (Disconnect s) w = disconnect e s w"

text \<open>
  A run of the server: each event comes with the environment of its handler. The run
  stops at the first exception.
\<close>

fun run :: "impl \<Rightarrow> (env \<times> event) list \<Rightarrow> world \<Rightarrow> error + world" where
  "run v [] w = Inr w"
| "run v ((e, ev) # rest) w =
     (case step v e ev w of Inl err \<Rightarrow> Inl err | Inr w1 \<Rightarrow> run v rest w1)"

section \<open>Notions used by the properties\<close>

text \<open>The order \<^verbatim>\<open>waiting\<close>, \<^verbatim>\<open>playing\<close>, \<^verbatim>\<open>finished\<close> of the status field.\<close>

fun rank :: "status \<Rightarrow> nat" where
  "rank waiting = 0"
| "rank playing = 1"
| "rank finished = 2"





text \<open>The match that \<^verbatim>\<open>join_queue\<close> leaves in the store for a dequeued pair.\<close>

definition paired_match :: "string \<Rightarrow> sid \<Rightarrow> sid \<Rightarrow> match" where
  "paired_match i sA sB =
     \<lparr> id_m = i, status = playing, type_m = public_t, code = None,
       players_A = Some sA, players_B = Some sB, uids_A = None, uids_B = None,
       spectators = [], round_m = 1, maxRounds = 5, score_A = 0, score_B = 0,
       turn = A, pending_kick = None, pending_dive = None \<rparr>"

section \<open>Concrete scenarios\<close>

text \<open>
  The scenarios below use an environment whose id generator returns \<open>i\<close> and whose random
  source returns \<open>x\<close> at every call. No scenario sends a string where a number is expected
  or a number where a match id is expected, so the two conversions are never called.
\<close>

definition env_of :: "string \<Rightarrow> real \<Rightarrow> env" where
  "env_of i x = \<lparr> gen = (\<lambda>n. i), rnd = (\<lambda>n. x), now = 0,
                  StringToNumber = (\<lambda>s. NaN), NumberToString = (\<lambda>n. ''NaN'') \<rparr>"

definition with_env :: "env \<Rightarrow> event list \<Rightarrow> (env \<times> event) list" where
  "with_env e evs = map (\<lambda>ev. (e, ev)) evs"

definition world_after :: "impl \<Rightarrow> (env \<times> event) list \<Rightarrow> world" where
  "world_after v evs = (case run v evs init_world of Inr w \<Rightarrow> w | Inl err \<Rightarrow> init_world)"

text \<open>What a scenario looks at in a match.\<close>

definition summary :: "match \<Rightarrow> status \<times> int \<times> slot \<times> (int \<times> int) \<times> sid list" where
  "summary m = (status m, round_m m, turn m, score m, spectators m)"

text \<open>
  A kick straight ahead at half power and a dive to the left. With every draw equal to
  \<open>1/2\<close> the ball goes to the centre and is not a miss, so the shot is a goal; all
  numbers involved are exact in double arithmetic.
\<close>

definition kick_mid :: payload where
  "kick_mid = Obj [(''angleDeg'', JNum (Fin 0)), (''power01'', JNum (Fin (1/2)))]"

definition dive_left :: payload where
  "dive_left = Obj [(''dir'', JStr ''left'')]"

definition A_scores :: "event list" where
  "A_scores = [Kick ''a'' kick_mid, Dive ''b'' dive_left]"

definition B_scores :: "event list" where
  "B_scores = [Dive ''a'' dive_left, Kick ''b'' kick_mid]"

text \<open>Connections \<open>a\<close> and \<open>b\<close> are paired by the queue, \<open>a\<close> in slot A.\<close>

definition start_ab :: "event list" where
  "start_ab = [Connection ''a'', Connection ''b'', JoinQueue ''a'', JoinQueue ''b'']"

text \<open>Five rounds in which every shot is a goal: 5-5 after ten shots.\<close>

definition regulation_tied :: "event list" where
  "regulation_tied =
     start_ab @ A_scores @ B_scores @ A_scores @ B_scores @ A_scores @ B_scores
       @ A_scores @ B_scores @ A_scores @ B_scores"

text \<open>A third connection watches the match of \<open>a\<close> and \<open>b\<close> and then leaves.\<close>

definition spectator_leaves :: "event list" where
  "spectator_leaves =
     start_ab @ [Connection ''s'', SpectateJoin ''s'' (Obj [(''matchId'', JStr ''m1'')]),
                 Disconnect ''s'']"

text \<open>
  A private match between \<open>a\<close> and \<open>b\<close>; \<open>a\<close> scores the first penalty, then the
  spectator \<open>s\<close> leaves. With every draw \<open>1/2\<close> the invite code is \<open>SSSSSS\<close>.
\<close>

definition private_ab :: "event list" where
  "private_ab =
     [Connection ''a'', Connection ''b'', CreatePrivate ''a'',
      JoinByCode ''b'' (Obj [(''code'', JStr ''SSSSSS'')])]"

definition one_shot_then_spectator_leaves :: "event list" where
  "one_shot_then_spectator_leaves =
     private_ab @ [Connection ''s'', SpectateJoin ''s'' (Obj [(''matchId'', JStr ''m1'')])]
       @ A_scores @ [Disconnect ''s'']"

text \<open>Two private matches created with the same six draws.\<close>

definition two_private :: "(env \<times> event) list" where
  "two_private =
     [(env_of ''m1'' (1/2), Connection ''a''), (env_of ''m1'' (1/2), Connection ''b''),
      (env_of ''m1'' (1/2), CreatePrivate ''a''), (env_of ''m2'' (1/2), CreatePrivate ''b'')]"

text \<open>
  The keeper dives to the centre, then the kicker sends a kick without \<^verbatim>\<open>power01\<close>.
\<close>

definition no_power :: payload where
  "no_power = Obj [(''angleDeg'', JNum (Fin 10))]"

definition kick_no_power :: "event list" where
  "kick_no_power =
     start_ab @ [Dive ''b'' (Obj [(''dir'', JStr ''center'')]), Kick ''a'' no_power]"

text \<open>A waiting private match whose slot B is already filled (no run produces one).\<close>

definition full_waiting :: world where
  "full_waiting =
     init_world\<lparr>matches :=
       [(''m1'', (createMatch ''m1'' (\<lambda>n. 1/2) private_t)
                   \<lparr>players_A := Some ''a'', players_B := Some ''b''\<rparr>)]\<rparr>"

text \<open>A match about to resolve its tenth shot, at 4-4 and at 4-3.\<close>

definition tenth_shot :: "int \<Rightarrow> match" where
  "tenth_shot b =
     (paired_match ''m1'' ''a'' ''b'')
       \<lparr>round_m := 5, turn := B, score_A := 4, score_B := b,
        pending_kick := Some \<lparr> angleDeg = Fin 0, power01 = Fin (1/2) \<rparr>,
        pending_dive := Some ''left''\<rparr>"

text \<open>A first \<^verbatim>\<open>hello\<close> without a uid, and one that names itself.\<close>

definition hello_guest :: "event list" where
  "hello_guest = [Connection ''a'', Hello ''a'' (Obj [(''nick'', JStr ''Ana'')])]"

definition hello_named :: "event list" where
  "hello_named =
     [Connection ''a'', Hello ''a'' (Obj [(''uid'', JStr ''u1''), (''nick'', JStr ''Ana'')])]"

text \<open>Four connections, none of them queued.\<close>

definition four_connected :: world where
  "four_connected =
     world_after ServerJs (with_env (env_of ''m0'' (1/2))
       [Connection ''c1'', Connection ''c2'', Connection ''c3'', Connection ''c4''])"

text \<open>
  A private match created by \<open>a\<close> and still waiting, and what follows: \<open>b\<close> joins by
  code, \<open>a\<close> scores, \<open>a\<close> disconnects, \<open>b\<close> creates a match of its own.
\<close>

definition waiting_private :: "event list" where
  "waiting_private = [Connection ''a'', Connection ''b'', CreatePrivate ''a'']"

definition life_of_match :: "event list" where
  "life_of_match =
     [JoinByCode ''b'' (Obj [(''code'', JStr ''SSSSSS'')])] @ A_scores
       @ [Disconnect ''a'', CreatePrivate ''b'']"

section \<open>Evaluation\<close>

lemmas model_defs =
  init_world_def on_connection_def join_queue_def meta_for_def createMatch_def
  startIfReady_def pushTurn_def finishMatch_def spectate_join_def disconnect_def
  get_match_def field_def to_all_def emit_to_def set_add_def meta_or_empty_def players_def
  other_def score_def create_private_def join_by_code_def find_waiting_def
  Object_entries_def array_index_def kick_def dive_def resolve_if_ready_def resolveShot_def
  shot_outcome_def shot_zone_def shot_angle_def shot_power_def after_shot_def
  totalShots_def normalize_dir_def or_zero_def Math_max_def Math_min_def js_sub_def
  hello_def empty_meta_def inviteCode_def char_at_def chars_def trim_def whitespace_def
  Let_def

lemmas scenario_defs =
  env_of_def with_env_def world_after_def summary_def kick_mid_def dive_left_def
  A_scores_def B_scores_def start_ab_def regulation_tied_def spectator_leaves_def
  private_ab_def one_shot_then_spectator_leaves_def two_private_def kick_no_power_def
  full_waiting_def tenth_shot_def paired_match_def hello_guest_def hello_named_def
  no_power_def four_connected_def waiting_private_def life_of_match_def

lemma upt_0_6: "[0..<6] = [0, 1, 2, 3, 4, 5]"
  by (simp add: eval_nat_numeral)

section \<open>Disconnecting spectators\<close>

lemma get_match_Own: "get_match st k = Own m \<longleftrightarrow> map_of st k = Some m"
  by (auto simp: get_match_def split: option.splits)

text \<open>
  The disconnect handler finishes the match that the connection's metadata points to,
  whatever the connection's role in it, and leaves the spectator set as it was.
\<close>

lemma disconnect_finishes_attached_match:
  assumes "socketsMeta w s = Some mt" and "truthy (matchId mt)"
      and "map_of (matches w) (ToPropertyKey e (matchId mt)) = Some m"
      and "status m \<noteq> finished"
  shows "\<exists>w'. disconnect e s w = Inr w'
           \<and> map_of (matches w') (ToPropertyKey e (matchId mt)) = Some (m\<lparr>status := finished\<rparr>)
           \<and> (players_A m,
               match_over (if players_A m = Some s then win_B else win_A) (score m)
                 (Some ''opponent_disconnected'')) \<in> set (outbox w')"
  using assms
  by (auto simp: disconnect_def get_match_Own [THEN iffD2] Let_def update_conv' score_def)

text \<open>
  C1. A spectator's disconnect should only remove the spectator and leave the match
  alone. In the run below \<open>a\<close> and \<open>b\<close> are playing and \<open>s\<close> is a spectator, not a
  player. Before \<open>s\<close> disconnects the match is playing; after, in both source files, it
  is finished, \<open>s\<close> is still in the spectator set, and a \<^verbatim>\<open>match_over\<close> naming A the
  winner by \<^verbatim>\<open>opponent_disconnected\<close> has gone to both players and to \<open>s\<close>.
\<close>

theorem spectator_disconnect_finishes_match:
  "map (\<lambda>(k, m). (k, summary m))
     (matches (world_after ServerJs (with_env (env_of ''m1'' (1/2)) (butlast spectator_leaves))))
     = [(''m1'', playing, 1, A, (0, 0), [''s''])]
   \<and> map (\<lambda>(k, m). (k, summary m))
     (matches (world_after ServerJs (with_env (env_of ''m1'' (1/2)) spectator_leaves)))
     = [(''m1'', finished, 1, A, (0, 0), [''s''])]
   \<and> drop 5 (outbox (world_after ServerJs (with_env (env_of ''m1'' (1/2)) spectator_leaves)))
     = [(Some ''a'', match_over win_A (0, 0) (Some ''opponent_disconnected'')),
        (Some ''b'', match_over win_A (0, 0) (Some ''opponent_disconnected'')),
        (Some ''s'', match_over win_A (0, 0) (Some ''opponent_disconnected''))]
   \<and> map (\<lambda>(k, m). (k, summary m))
     (matches (world_after Part000 (with_env (env_of ''m1'' (1/2)) spectator_leaves)))
     = [(''m1'', finished, 1, A, (0, 0), [''s''])]"
  by (simp add: scenario_defs model_defs)

text \<open>
  C10. A match in which neither player disconnects should not finish before ten shots
  are resolved. In the run below \<open>a\<close> and \<open>b\<close> play a private match watched by \<open>s\<close>;
  \<open>a\<close> scores the first penalty and then \<open>s\<close> disconnects. One shot has been resolved,
  \<open>a\<close> and \<open>b\<close> are still connected, and the match is finished, in both source files.
\<close>

theorem spectator_disconnect_ends_match_early:
  "map (\<lambda>(k, m). (k, summary m, totalShots m))
     (matches (world_after ServerJs
        (with_env (env_of ''m1'' (1/2)) (butlast one_shot_then_spectator_leaves))))
     = [(''m1'', (playing, 1, B, (1, 0), [''s'']), 1)]
   \<and> map (\<lambda>(k, m). (k, summary m, totalShots m))
     (matches (world_after ServerJs
        (with_env (env_of ''m1'' (1/2)) one_shot_then_spectator_leaves)))
     = [(''m1'', (finished, 1, B, (1, 0), [''s'']), 1)]
   \<and> map (\<lambda>(k, m). (k, summary m, totalShots m))
     (matches (world_after Part000
        (with_env (env_of ''m1'' (1/2)) one_shot_then_spectator_leaves)))
     = [(''m1'', (finished, 1, B, (1, 0), [''s'']), 1)]
   \<and> map (\<lambda>c. socketsMeta (world_after ServerJs
        (with_env (env_of ''m1'' (1/2)) one_shot_then_spectator_leaves)) c \<noteq> None)
        [''a'', ''b'', ''s'']
     = [True, True, False]"
  by (simp add: scenario_defs model_defs upt_0_6)

section \<open>The end test of resolveShot\<close>

text \<open>\<^verbatim>\<open>totalShots\<close> counts the resolved shots: a new match has none, each shot adds one.\<close>

lemma createMatch_totalShots: "totalShots (createMatch i r t) = 0"
  by (simp add: createMatch_def totalShots_def)

lemma after_shot_totalShots: "totalShots (fst (after_shot res z m)) = totalShots m + 1"
  by (cases "turn m")
     (simp_all add: after_shot_def finishMatch_def totalShots_def other_def Let_def)

text \<open>Shot resolution itself finishes a match only once \<^verbatim>\<open>maxShots\<close> is reached.\<close>

lemma after_shot_finish_needs_maxShots:
  assumes "status m \<noteq> finished" and "status (fst (after_shot res z m)) = finished"
  shows "totalShots (fst (after_shot res z m)) \<ge> maxRounds m * 2"
  using assms
  by (auto simp: after_shot_def finishMatch_def totalShots_def other_def Let_def
      split: if_splits slot.splits)

lemma resolveShot_finish_needs_maxShots:
  assumes "resolveShot v r m = Inr (m', out)" and "status m \<noteq> finished"
      and "status m' = finished"
  shows "totalShots m' \<ge> maxRounds m * 2"
  using assms
    after_shot_finish_needs_maxShots [of "m\<lparr>pending_kick := None, pending_dive := None\<rparr>"]
  by (auto simp: resolveShot_def split: option.splits sum.splits prod.splits) (metis fst_conv)

text \<open>
  In sudden death with the scores level, a goal by slot A ends the match at once: the
  first test of the end check, \<^verbatim>\<open>m.score.A !== m.score.B\<close>, does not look at the turn,
  and the test under \<^verbatim>\<open>m.turn === 'A'\<close> is only reached with equal scores.
\<close>

lemma sudden_death_goal_by_A_finishes:
  assumes "turn m = A" and "round_m m > maxRounds m" and "maxRounds m \<ge> 0"
      and "score_A m = score_B m"
  shows "status (fst (after_shot goal z m)) = finished
         \<and> turn (fst (after_shot goal z m)) = B
         \<and> round_m (fst (after_shot goal z m)) = round_m m"
  using assms
  by (simp add: after_shot_def finishMatch_def totalShots_def other_def Let_def)

text \<open>
  C2. In sudden death a shot by slot A alone should never finish the match. In the run
  below every shot of regulation is a goal, so the match enters round 6 at 5-5 with A to
  kick. A scores: the match is finished at 6-5 in round 6 with the turn at B, and
  \<^verbatim>\<open>match_over\<close> goes out; B never takes the answering kick. Both source files agree.
\<close>

theorem sudden_death_first_kick_ends_match:
  "map (\<lambda>(k, m). (k, summary m))
     (matches (world_after ServerJs (with_env (env_of ''m1'' (1/2)) regulation_tied)))
     = [(''m1'', playing, 6, A, (5, 5), [])]
   \<and> map (\<lambda>(k, m). (k, summary m))
     (matches (world_after ServerJs (with_env (env_of ''m1'' (1/2)) (regulation_tied @ A_scores))))
     = [(''m1'', finished, 6, B, (6, 5), [])]
   \<and> map (\<lambda>(k, m). (k, summary m))
     (matches (world_after Part000 (with_env (env_of ''m1'' (1/2)) (regulation_tied @ A_scores))))
     = [(''m1'', finished, 6, B, (6, 5), [])]
   \<and> drop 46 (outbox (world_after ServerJs
        (with_env (env_of ''m1'' (1/2)) (regulation_tied @ A_scores))))
     = [(Some ''a'', match_over win_A (6, 5) None), (Some ''b'', match_over win_A (6, 5) None)]"
  by (simp add: scenario_defs model_defs)

lemma shot_outcome_Some: "\<exists>res z. shot_outcome v r k (Some d) = Inr (res, z)"
  by (simp add: shot_outcome_def Let_def)

text \<open>
  C6. A match in regulation that has resolved nine shots (\<^verbatim>\<open>maxRounds\<close> is 5, as
  \<^verbatim>\<open>createMatch\<close> sets it) resolves its tenth: the code's shot count is then 10; if the
  scores differ the match is finished and \<^verbatim>\<open>match_over\<close> names the higher scorer to both
  players; if they are equal the match stays playing, no \<^verbatim>\<open>match_over\<close> is sent, and
  the round is \<^verbatim>\<open>maxRounds + 1\<close> with slot A to kick. This holds in both source files,
  for every kick, dive and random draw.
\<close>

theorem regulation_end:
  assumes "pending_kick m = Some k" and "pending_dive m = Some d"
      and "status m = playing" and "maxRounds m = 5" and "totalShots m = 9"
  shows "\<exists>m' out. resolveShot v r m = Inr (m', out) \<and> totalShots m' = 10
           \<and> (score_A m' \<noteq> score_B m' \<longrightarrow>
                status m' = finished
                \<and> (players_A m, match_over (if score_A m' > score_B m' then win_A else win_B)
                      (score m') None) \<in> set out
                \<and> (players_B m, match_over (if score_A m' > score_B m' then win_A else win_B)
                      (score m') None) \<in> set out)
           \<and> (score_A m' = score_B m' \<longrightarrow>
                status m' = playing \<and> round_m m' = maxRounds m' + 1 \<and> turn m' = A
                \<and> (\<forall>t wn sc rs. (t, match_over wn sc rs) \<notin> set out))"
proof -
  have "turn m \<noteq> A"
  proof
    assume "turn m = A"
    with assms(5) have "(round_m m - 1) * 2 = 9" by (simp add: totalShots_def)
    then show False by presburger
  qed
  then have tr: "turn m = B" "round_m m = 5"
    using assms(5) by (cases "turn m"; simp add: totalShots_def)+
  obtain res z where o: "shot_outcome v r k (Some d) = Inr (res, z)"
    using shot_outcome_Some by blast
  show ?thesis
    using assms(1-4) tr o
    by (cases "res = goal")
       (auto simp: resolveShot_def after_shot_def finishMatch_def totalShots_def other_def
          pushTurn_def to_all_def score_def Let_def)
qed

theorem regulation_end_witness:
  "pending_kick (tenth_shot 4) = Some \<lparr> angleDeg = Fin 0, power01 = Fin (1/2) \<rparr>
   \<and> pending_dive (tenth_shot 3) = Some ''left''
   \<and> status (tenth_shot 4) = playing \<and> maxRounds (tenth_shot 3) = 5
   \<and> totalShots (tenth_shot 4) = 9 \<and> totalShots (tenth_shot 3) = 9
   \<and> (\<exists>m' out. resolveShot ServerJs (\<lambda>n. 1/2) (tenth_shot 4) = Inr (m', out)
         \<and> summary m' = (finished, 6, A, (4, 5), [])
         \<and> (Some ''a'', match_over win_B (4, 5) None) \<in> set out)
   \<and> (\<exists>m' out. resolveShot Part000 (\<lambda>n. 1/2) (tenth_shot 3) = Inr (m', out)
         \<and> summary m' = (playing, 6, A, (4, 4), []))"
  using regulation_end [of "tenth_shot 4" "\<lparr> angleDeg = Fin 0, power01 = Fin (1/2) \<rparr>"
                           "''left''" ServerJs "\<lambda>n. 1/2"]
        regulation_end [of "tenth_shot 3" "\<lparr> angleDeg = Fin 0, power01 = Fin (1/2) \<rparr>"
                           "''left''" Part000 "\<lambda>n. 1/2"]
  by (simp add: scenario_defs model_defs)

section \<open>Invite codes\<close>

lemma length_chars: "length chars = 32"
  by (simp add: chars_def)

lemma char_at_in_range:
  "0 \<le> z \<Longrightarrow> z < int (length s) \<Longrightarrow> \<exists>c. char_at s z = [c] \<and> c \<in> set s"
  by (simp add: char_at_def nat_less_iff)

lemma char_at_chars:
  assumes "0 \<le> x" and "x < 1"
  shows "\<exists>c. char_at chars \<lfloor>x * real (length chars)\<rfloor> = [c] \<and> c \<in> set chars"
proof (rule char_at_in_range)
  show "0 \<le> \<lfloor>x * real (length chars)\<rfloor>" using assms by simp
  show "\<lfloor>x * real (length chars)\<rfloor> < int (length chars)"
    using assms by (simp add: floor_less_iff length_chars)
qed

text \<open>
  C3, as amended. With the draws of \<^verbatim>\<open>Math.random()\<close> in \<open>[0, 1)\<close>, an invite code is six
  characters of the alphabet, which has none of I, O, 0 and 1; a private match gets such a
  code when it is created and a public match gets none. Nothing compares the code with
  the codes of other matches.
\<close>

theorem inviteCode_six_from_alphabet:
  assumes "\<forall>i<6. 0 \<le> r i \<and> r i < 1"
  shows "length (inviteCode r) = 6 \<and> set (inviteCode r) \<subseteq> set chars
         \<and> set chars \<inter> set ''IO01'' = {}
         \<and> code (createMatch i r private_t) = Some (inviteCode r)
         \<and> code (createMatch i r public_t) = None"
proof -
  have "\<exists>c. char_at chars \<lfloor>r j * real (length chars)\<rfloor> = [c] \<and> c \<in> set chars" if "j < 6" for j
    using assms that char_at_chars by blast
  from this [of 0] this [of 1] this [of 2] this [of 3] this [of 4] this [of 5]
  have "length (inviteCode r) = 6 \<and> set (inviteCode r) \<subseteq> set chars"
    by (auto simp: inviteCode_def upt_0_6)
  moreover have "set chars \<inter> set ''IO01'' = {}"
    by (simp add: chars_def)
  ultimately show ?thesis
    by (simp add: createMatch_def)
qed

theorem inviteCode_six_from_alphabet_witness:
  "list_all (\<lambda>i. 0 \<le> (1/2 :: real) \<and> (1/2 :: real) < 1) [0 ..< 6]
   \<and> inviteCode (\<lambda>n. 1/2) = ''SSSSSS''
   \<and> length (inviteCode (\<lambda>n. 1/2)) = 6 \<and> set (inviteCode (\<lambda>n. 1/2)) \<subseteq> set chars
   \<and> code (createMatch ''m1'' (\<lambda>n. 1/2) private_t) = Some ''SSSSSS''"
  using inviteCode_six_from_alphabet [of "\<lambda>n. 1/2" "''m1''"]
  by (simp add: inviteCode_def char_at_def chars_def upt_0_6)

text \<open>
  C3, as stated, fails on uniqueness: two private matches created with the same draws
  are both waiting and carry the same code, in both source files.
\<close>

theorem two_private_matches_share_code:
  "map (\<lambda>(k, m). (k, type_m m, status m, code m)) (matches (world_after ServerJs two_private))
     = [(''m1'', private_t, waiting, Some ''SSSSSS''), (''m2'', private_t, waiting, Some ''SSSSSS'')]
   \<and> map (\<lambda>(k, m). (k, type_m m, status m, code m)) (matches (world_after Part000 two_private))
     = [(''m1'', private_t, waiting, Some ''SSSSSS''), (''m2'', private_t, waiting, Some ''SSSSSS'')]"
  by (simp add: scenario_defs model_defs upt_0_6)

section \<open>hello\<close>

text \<open>
  part_000 answers every \<^verbatim>\<open>hello\<close>, whatever the payload, with \<^verbatim>\<open>hello_ok\<close> carrying
  \<^verbatim>\<open>serverTime\<close>, \<^verbatim>\<open>uid\<close> and \<^verbatim>\<open>nick\<close>, and stores the two in the registry.
\<close>

lemma hello_Part000_replies:
  "\<exists>u n. u \<noteq> [] \<and> n \<noteq> [] \<and>
     hello Part000 e s p w =
       Inr (w\<lparr>socketsMeta := (socketsMeta w)
                (s \<mapsto> (meta_or_empty (socketsMeta w) s)\<lparr>uid := JStr u, nick := JStr n\<rparr>),
              outbox := outbox w @
                [(Some s, hello_ok [(''serverTime'', JNum (Fin (of_int (now e)))),
                                    (''uid'', JStr u), (''nick'', JStr n)])]\<rparr>)"
  by (auto simp: hello_def emit_to_def Let_def split: jsval.splits)

lemma hello_Part000_defaults:
  "hello Part000 e s NoObject w =
     Inr (w\<lparr>socketsMeta := (socketsMeta w)
              (s \<mapsto> (meta_or_empty (socketsMeta w) s)
                     \<lparr>uid := JStr (''guest_'' @ gen e 0), nick := JStr ''Invitado''\<rparr>),
            outbox := outbox w @
              [(Some s, hello_ok [(''serverTime'', JNum (Fin (of_int (now e)))),
                                  (''uid'', JStr (''guest_'' @ gen e 0)),
                                  (''nick'', JStr ''Invitado'')])]\<rparr>)"
  by (simp add: hello_def emit_to_def field_def Let_def)

text \<open>server.js throws when the payload has no truthy uid, and replies with
  \<^verbatim>\<open>serverTime\<close> alone otherwise.\<close>

lemma hello_ServerJs_without_uid:
  "\<not> truthy (field fs ''uid'') \<Longrightarrow> hello ServerJs e s (Obj fs) w = Inl TypeError"
  by (simp add: hello_def Let_def)

lemma hello_ServerJs_payload:
  "hello ServerJs e s p w = Inr w' \<Longrightarrow>
     outbox w' = outbox w @ [(Some s, hello_ok [(''serverTime'', JNum (Fin (of_int (now e))))])]"
  by (auto simp: hello_def emit_to_def Let_def split: payload.splits if_splits)

text \<open>
  C4. Every \<^verbatim>\<open>hello\<close> should set the identity, defaulting the uid to a guest id, and be
  answered by \<^verbatim>\<open>hello_ok\<close> with \<^verbatim>\<open>serverTime\<close>, \<^verbatim>\<open>uid\<close> and \<^verbatim>\<open>nick\<close>. In server.js a
  \<^verbatim>\<open>hello\<close> without uid throws a TypeError, and a \<^verbatim>\<open>hello\<close> with a uid is answered with
  \<^verbatim>\<open>serverTime\<close> only. part_000 answers both as the claim says.
\<close>

theorem hello_in_server_js:
  "run ServerJs (with_env (env_of ''g1'' (1/2)) hello_guest) init_world = Inl TypeError
   \<and> outbox (world_after ServerJs (with_env (env_of ''g1'' (1/2)) hello_named))
     = [(Some ''a'', hello_ok [(''serverTime'', JNum (Fin 0))])]
   \<and> outbox (world_after Part000 (with_env (env_of ''g1'' (1/2)) hello_guest))
     = [(Some ''a'', hello_ok [(''serverTime'', JNum (Fin 0)), (''uid'', JStr ''guest_g1''),
                               (''nick'', JStr ''Ana'')])]
   \<and> outbox (world_after Part000 (with_env (env_of ''g1'' (1/2)) hello_named))
     = [(Some ''a'', hello_ok [(''serverTime'', JNum (Fin 0)), (''uid'', JStr ''u1''),
                               (''nick'', JStr ''Ana'')])]"
  by (simp add: scenario_defs model_defs)

section \<open>Normalisation of kick and dive\<close>

text \<open>
  Clamping keeps a number in range, but \<^verbatim>\<open>Math.max\<close> and \<^verbatim>\<open>Math.min\<close> pass \<open>NaN\<close> on.
  part_000 replaces \<open>NaN\<close> by \<open>0\<close> before it clamps; server.js does so for the angle only
  (in the kick handler), never for the power.
\<close>

lemma Math_clamp_range:
  "lo \<le> hi \<Longrightarrow> n \<noteq> NaN \<Longrightarrow> \<exists>x. Math_max (Fin lo) (Math_min (Fin hi) n) = Fin x \<and> lo \<le> x \<and> x \<le> hi"
  by (cases n) (auto simp: Math_max_def Math_min_def)

lemma Math_clamp_NaN: "Math_max (Fin lo) (Math_min (Fin hi) NaN) = NaN"
  by (simp add: Math_max_def Math_min_def)

lemma or_zero_not_NaN: "or_zero n \<noteq> NaN"
  by (simp add: or_zero_def)

lemma shot_angle_Part000: "\<exists>x. shot_angle Part000 k = Fin x \<and> - 60 \<le> x \<and> x \<le> 60"
  unfolding shot_angle_def using Math_clamp_range [of "- 60" 60 "or_zero (angleDeg k)"]
  by (simp add: or_zero_not_NaN)

lemma shot_power_Part000: "\<exists>x. shot_power Part000 k = Fin x \<and> 0 \<le> x \<and> x \<le> 1"
  unfolding shot_power_def using Math_clamp_range [of 0 1 "or_zero (power01 k)"]
  by (simp add: or_zero_not_NaN)

lemma shot_angle_ServerJs:
  "angleDeg k \<noteq> NaN \<Longrightarrow> \<exists>x. shot_angle ServerJs k = Fin x \<and> - 60 \<le> x \<and> x \<le> 60"
  unfolding shot_angle_def using Math_clamp_range [of "- 60" 60 "angleDeg k"]
  by simp

lemma shot_power_ServerJs:
  "power01 k \<noteq> NaN \<Longrightarrow> \<exists>x. shot_power ServerJs k = Fin x \<and> 0 \<le> x \<and> x \<le> 1"
  unfolding shot_power_def using Math_clamp_range [of 0 1 "power01 k"]
  by simp

lemma shot_power_ServerJs_NaN: "power01 k = NaN \<Longrightarrow> shot_power ServerJs k = NaN"
  by (simp add: shot_power_def Math_clamp_NaN)

lemma normalize_dir_range: "normalize_dir d \<in> {''left'', ''center'', ''right''}"
  by (auto simp: normalize_dir_def split: jsval.splits)

text \<open>
  With a power that is \<open>NaN\<close> every comparison of server.js fails: the zone is the centre
  and the shot is neither a miss nor a save, whatever the keeper does.
\<close>

lemma shot_outcome_NaN_power:
  "power01 k = NaN \<Longrightarrow> shot_outcome ServerJs r k (Some d) = Inr (goal, ''center'')"
  by (cases "shot_angle ServerJs k")
   (simp_all add: shot_outcome_def shot_zone_def shot_power_ServerJs_NaN js_sub_def Math_max_def Let_def)

text \<open>
  C5. No kick payload should bring an out-of-range value to the arithmetic of the shot or
  cause an error. In server.js a kick without \<^verbatim>\<open>power01\<close> is stored with power \<open>NaN\<close>, and
  \<open>NaN\<close> is the power \<^verbatim>\<open>resolveShot\<close> computes with: against a keeper who dives to the
  centre, with draws that make a save certain in part_000, the shot is a goal. In both
  source files a kick whose payload is \<^verbatim>\<open>null\<close> or \<^verbatim>\<open>undefined\<close> throws a TypeError.
\<close>

theorem kick_without_power:
  "map (\<lambda>(k, m). pending_kick m)
     (matches (world_after ServerJs (with_env (env_of ''m1'' 0) (start_ab @ [Kick ''a'' no_power]))))
     = [Some \<lparr> angleDeg = Fin 10, power01 = NaN \<rparr>]
   \<and> shot_power ServerJs \<lparr> angleDeg = Fin 10, power01 = NaN \<rparr> = NaN
   \<and> map (\<lambda>(k, m). (k, summary m))
     (matches (world_after ServerJs (with_env (env_of ''m1'' 0) kick_no_power)))
     = [(''m1'', playing, 1, B, (1, 0), [])]
   \<and> map (\<lambda>(k, m). (k, summary m))
     (matches (world_after Part000 (with_env (env_of ''m1'' 0) kick_no_power)))
     = [(''m1'', playing, 1, B, (0, 0), [])]
   \<and> run ServerJs (with_env (env_of ''m1'' 0) (start_ab @ [Kick ''a'' NoObject])) init_world
     = Inl TypeError
   \<and> run Part000 (with_env (env_of ''m1'' 0) (start_ab @ [Kick ''a'' NoObject])) init_world
     = Inl TypeError"
  by (simp add: scenario_defs model_defs)

section \<open>The status of a match\<close>






lemma rank_le_2 [simp]: "rank x \<le> 2"
  by (cases x) auto















section \<open>Reachable stores\<close>












section \<open>Pairing from the queue\<close>

lemma join_queue_first:
  assumes "queue w = []" and "socketsMeta w c \<noteq> None"
  shows "join_queue v e c w = Inr (w\<lparr>queue := [c]\<rparr>)"
  using assms by (auto simp: join_queue_def)

lemma join_queue_second:
  assumes "queue w = [c1]" and "socketsMeta w c1 \<noteq> None" and "socketsMeta w c2 \<noteq> None"
  shows "\<exists>w'. join_queue v e c2 w = Inr w'
           \<and> matches w' = AList.update (gen e 0) (paired_match (gen e 0) c1 c2) (matches w)
           \<and> queue w' = []
           \<and> outbox w' = outbox w @
                [(Some c1, match_start (gen e 0) A 5), (Some c2, match_start (gen e 0) B 5),
                 (Some c1, your_turn kicker 1 A (0, 0)), (Some c2, your_turn keeper 1 B (0, 0))]
           \<and> (\<forall>c. socketsMeta w c \<noteq> None \<longrightarrow> socketsMeta w' c \<noteq> None)"
  using assms
  by (auto simp: join_queue_def meta_for_def startIfReady_def createMatch_def paired_match_def
      pushTurn_def players_def other_def score_def to_all_def Let_def)

text \<open>
  C8. Four connections join an empty queue in the order \<open>c1\<close>, \<open>c2\<close>, \<open>c3\<close>, \<open>c4\<close>,
  with nothing in between. The first match created has \<open>c1\<close> in slot A and \<open>c2\<close> in
  slot B, the second has \<open>c3\<close> in slot A and \<open>c4\<close> in slot B; both are public and
  playing, the players are told their slots in that order, and the queue is empty again.
  The ids are the first id drawn in the second and in the fourth event.
\<close>

theorem pairing_fifo:
  assumes "queue w = []"
      and "socketsMeta w c1 \<noteq> None" and "socketsMeta w c2 \<noteq> None"
      and "socketsMeta w c3 \<noteq> None" and "socketsMeta w c4 \<noteq> None"
  shows "\<exists>w'. run v [(e1, JoinQueue c1), (e2, JoinQueue c2), (e3, JoinQueue c3),
                      (e4, JoinQueue c4)] w = Inr w'
           \<and> matches w' =
               AList.update (gen e4 0) (paired_match (gen e4 0) c3 c4)
                 (AList.update (gen e2 0) (paired_match (gen e2 0) c1 c2) (matches w))
           \<and> queue w' = []
           \<and> outbox w' = outbox w @
                [(Some c1, match_start (gen e2 0) A 5), (Some c2, match_start (gen e2 0) B 5),
                 (Some c1, your_turn kicker 1 A (0, 0)), (Some c2, your_turn keeper 1 B (0, 0)),
                 (Some c3, match_start (gen e4 0) A 5), (Some c4, match_start (gen e4 0) B 5),
                 (Some c3, your_turn kicker 1 A (0, 0)), (Some c4, your_turn keeper 1 B (0, 0))]"
proof -
  let ?w1 = "w\<lparr>queue := [c1]\<rparr>"
  have s1: "join_queue v e1 c1 w = Inr ?w1"
    using assms by (simp add: join_queue_first)
  obtain w2 where s2: "join_queue v e2 c2 ?w1 = Inr w2"
    and m2: "matches w2 = AList.update (gen e2 0) (paired_match (gen e2 0) c1 c2) (matches w)"
    and q2: "queue w2 = []"
    and o2: "outbox w2 = outbox w @
                [(Some c1, match_start (gen e2 0) A 5), (Some c2, match_start (gen e2 0) B 5),
                 (Some c1, your_turn kicker 1 A (0, 0)), (Some c2, your_turn keeper 1 B (0, 0))]"
    and k2: "\<forall>c. socketsMeta w c \<noteq> None \<longrightarrow> socketsMeta w2 c \<noteq> None"
    using join_queue_second [of ?w1 c1 c2 v e2] assms by auto
  let ?w3 = "w2\<lparr>queue := [c3]\<rparr>"
  have s3: "join_queue v e3 c3 w2 = Inr ?w3"
    using q2 k2 assms by (simp add: join_queue_first)
  obtain w4 where s4: "join_queue v e4 c4 ?w3 = Inr w4"
    and m4: "matches w4 = AList.update (gen e4 0) (paired_match (gen e4 0) c3 c4) (matches w2)"
    and q4: "queue w4 = []"
    and o4: "outbox w4 = outbox w2 @
                [(Some c3, match_start (gen e4 0) A 5), (Some c4, match_start (gen e4 0) B 5),
                 (Some c3, your_turn kicker 1 A (0, 0)), (Some c4, your_turn keeper 1 B (0, 0))]"
    using join_queue_second [of ?w3 c3 c4 v e4] k2 assms by auto
  show ?thesis
    using s1 s2 s3 s4 m2 m4 q4 o2 o4 by simp
qed

theorem pairing_fifo_witness:
  "queue four_connected = []
   \<and> list_all (\<lambda>c. socketsMeta four_connected c \<noteq> None) [''c1'', ''c2'', ''c3'', ''c4'']
   \<and> (\<exists>w'. run Part000 [(env_of ''m1'' (1/2), JoinQueue ''c1''), (env_of ''m1'' (1/2), JoinQueue ''c2''),
                         (env_of ''m2'' (1/2), JoinQueue ''c3''), (env_of ''m2'' (1/2), JoinQueue ''c4'')]
              four_connected = Inr w'
         \<and> matches w' = [(''m1'', paired_match ''m1'' ''c1'' ''c2''),
                          (''m2'', paired_match ''m2'' ''c3'' ''c4'')])"
  using pairing_fifo [of four_connected "''c1''" "''c2''" "''c3''" "''c4''" Part000
      "env_of ''m1'' (1/2)" "env_of ''m1'' (1/2)" "env_of ''m2'' (1/2)" "env_of ''m2'' (1/2)"]
  by (simp add: four_connected_def scenario_defs model_defs)

section \<open>Joining by code\<close>




end
